theory Spec2Isabelle
  imports Complex_Main
begin

section \<open>Values exchanged with the outside world\<close>

text \<open>
  The financial data layer (\<^verbatim>\<open>core/finance.py\<close>) talks to HTTP price sources, chain RPC
  endpoints, a quote/build service and a policy script, and keeps its state in JSON files.
  Decoded JSON is a tree of Python values. Python floats are modelled as reals: the model
  computes exactly where the program rounds to the nearest double, and it has no infinities
  and no NaN.
\<close>

datatype json =
    JNull
  | JBool bool
  | JInt int
  | JFloat real
  | JStr string
  | JArr "json list"
  | JObj "(string \<times> json) list"

type_synonym pydict = "(string \<times> json) list"

text \<open>The exceptions the modelled code can meet; a raise is the left injection.\<close>

datatype py_error = KeyError | TypeError | ValueError | IndexError | AttributeError

text \<open>Python truthiness, as used by \<^verbatim>\<open>if data:\<close>, \<^verbatim>\<open>if pairs:\<close> and \<^verbatim>\<open>x or y\<close>.\<close>

fun truthy :: "json \<Rightarrow> bool" where
  "truthy JNull = False"
| "truthy (JBool b) = b"
| "truthy (JInt i) = (i \<noteq> 0)"
| "truthy (JFloat r) = (r \<noteq> 0)"
| "truthy (JStr s) = (s \<noteq> [])"
| "truthy (JArr xs) = (xs \<noteq> [])"
| "truthy (JObj kvs) = (kvs \<noteq> [])"

text \<open>\<^verbatim>\<open>d.get(k, default)\<close> on a dictionary.\<close>

definition dict_get :: "pydict \<Rightarrow> string \<Rightarrow> json \<Rightarrow> json" where
  "dict_get d k dflt = (case map_of d k of None \<Rightarrow> dflt | Some v \<Rightarrow> v)"

text \<open>\<^verbatim>\<open>x[k]\<close> with a string key: only a dictionary accepts it.\<close>

fun subscript_key :: "json \<Rightarrow> string \<Rightarrow> py_error + json" where
  "subscript_key (JObj kvs) k = (case map_of kvs k of None \<Rightarrow> Inl KeyError | Some v \<Rightarrow> Inr v)"
| "subscript_key _ k = Inl TypeError"

text \<open>
  \<^verbatim>\<open>x[0]\<close>: the first element of a list, the first character of a string, the value
  under the key \<^verbatim>\<open>0\<close> of a dictionary (decoded JSON has string keys only, so that is a
  KeyError), and a TypeError on anything else.
\<close>

fun subscript_zero :: "json \<Rightarrow> py_error + json" where
  "subscript_zero (JArr []) = Inl IndexError"
| "subscript_zero (JArr (x # xs)) = Inr x"
| "subscript_zero (JStr []) = Inl IndexError"
| "subscript_zero (JStr (c # cs)) = Inr (JStr [c])"
| "subscript_zero (JObj kvs) = Inl KeyError"
| "subscript_zero _ = Inl TypeError"

subsection \<open>Numbers written as text\<close>

definition is_space :: "char \<Rightarrow> bool" where
  "is_space c = (c \<in> set [CHR '' '', CHR 0x09, CHR 0x0A, CHR 0x0B, CHR 0x0C, CHR 0x0D])"

text \<open>\<^verbatim>\<open>s.strip()\<close>.\<close>

definition strip :: "string \<Rightarrow> string" where
  "strip s = rev (dropWhile is_space (rev (dropWhile is_space s)))"

definition is_digit :: "char \<Rightarrow> bool" where
  "is_digit c = (48 \<le> (of_char c :: nat) \<and> (of_char c :: nat) \<le> 57)"

fun digits_value :: "nat \<Rightarrow> string \<Rightarrow> nat" where
  "digits_value acc [] = acc"
| "digits_value acc (c # cs) = digits_value (10 * acc + ((of_char c :: nat) - 48)) cs"

text \<open>
  The sign of a numeral and the rest of it.
\<close>

fun split_sign :: "string \<Rightarrow> bool \<times> string" where
  "split_sign [] = (False, [])"
| "split_sign (c # cs) =
     (if c = CHR ''-'' then (True, cs) else if c = CHR ''+'' then (False, cs) else (False, c # cs))"

text \<open>
  \<^verbatim>\<open>int(s)\<close> on a string: surrounding blanks, an optional sign and decimal digits. (Python
  also accepts underscores between digits; a string using them is a ValueError here.)
\<close>

definition int_of_str :: "string \<Rightarrow> py_error + int" where
  "int_of_str s =
     (case split_sign (strip s) of (neg, ds) \<Rightarrow>
        if ds \<noteq> [] \<and> list_all is_digit ds
        then Inr (if neg then - int (digits_value 0 ds) else int (digits_value 0 ds))
        else Inl ValueError)"

text \<open>
  \<^verbatim>\<open>float(s)\<close> on a string: surrounding blanks, an optional sign, decimal digits and an
  optional fraction. (Python also accepts exponents and the words for infinity and NaN; a
  string using them is a ValueError here.)
\<close>

definition float_of_str :: "string \<Rightarrow> py_error + real" where
  "float_of_str s =
     (case split_sign (strip s) of (neg, body) \<Rightarrow>
        let ip = takeWhile is_digit body;
            rest = dropWhile is_digit body;
            fp = (case rest of [] \<Rightarrow> [] | c # cs \<Rightarrow> cs);
            well = ((rest = [] \<or> hd rest = CHR ''.'') \<and> list_all is_digit fp \<and> ip @ fp \<noteq> []);
            mag = real (digits_value 0 ip) + real (digits_value 0 fp) / 10 ^ length fp
        in if well then Inr (if neg then - mag else mag) else Inl ValueError)"

text \<open>\<^verbatim>\<open>float(x)\<close> on a decoded JSON value.\<close>

fun py_float :: "json \<Rightarrow> py_error + real" where
  "py_float (JFloat r) = Inr r"
| "py_float (JInt i) = Inr (real_of_int i)"
| "py_float (JBool b) = Inr (if b then 1 else 0)"
| "py_float (JStr s) = float_of_str s"
| "py_float _ = Inl TypeError"

text \<open>\<^verbatim>\<open>int(x)\<close> on a decoded JSON value; a float is truncated towards zero.\<close>

fun py_int :: "json \<Rightarrow> py_error + int" where
  "py_int (JInt i) = Inr i"
| "py_int (JFloat r) = Inr (if 0 \<le> r then \<lfloor>r\<rfloor> else \<lceil>r\<rceil>)"
| "py_int (JBool b) = Inr (if b then 1 else 0)"
| "py_int (JStr s) = int_of_str s"
| "py_int _ = Inl TypeError"

text \<open>
  \<^verbatim>\<open>round(x, 2)\<close>: to the nearest multiple of one hundredth, a tie going to the even
  neighbour.
\<close>

definition py_round2 :: "real \<Rightarrow> real" where
  "py_round2 x =
     (let y = x * 100; f = \<lfloor>y\<rfloor>; d = y - of_int f
      in of_int (if d < 1 / 2 then f else if 1 / 2 < d then f + 1
                 else if even f then f else f + 1) / 100)"

section \<open>The world outside the module\<close>

text \<open>
  Every call that leaves the module is answered by the world. The calls that matter to the
  order of a swap are recorded as effects, in the order in which the program makes them: a
  function that performs such calls returns its value together with the effects it caused.
\<close>

record policy_request =
  req_chain :: string
  req_value_usd :: real
  req_to :: string
  req_commit :: bool

text \<open>
  What \<^verbatim>\<open>subprocess.run\<close> on the policy script does: it raises (the interpreter is
  missing, the script runs past its timeout), or it completes with a return code and the
  text of both output streams.
\<close>

datatype run_outcome = Raised string | Completed int string string

record token_account =
  tok_mint :: string
  tok_amount :: real
  tok_decimals :: int

record world =
  http_get_json :: "string \<Rightarrow> (string \<times> string) list \<Rightarrow> pydict option"
  quote_response :: "string \<Rightarrow> string \<Rightarrow> int \<Rightarrow> int \<Rightarrow> pydict option"
  swap_response :: "pydict \<Rightarrow> string \<Rightarrow> pydict option"
  policy_script_exists :: bool
  policy_run :: "policy_request \<Rightarrow> run_outcome"
  solana_address_read :: string
  solana_balance_read :: "real option"
  base_balance_read :: "real option"
  token_accounts_read :: "token_account list"
  policy_loaded :: json
  ledger_file :: json
  last_tx_file :: json
  utc_day :: string
  unix_time :: int
  clock :: "nat \<Rightarrow> int"
  py_str :: "json \<Rightarrow> string"
  format_2f :: "real \<Rightarrow> string"

text \<open>
  \<^item> \<open>http_get_json\<close> is \<^verbatim>\<open>_http_get_json\<close>: the decoded body of a GET, or nothing when
    the request, the status check or the decoding raises (the function catches everything).
  \<^item> \<open>quote_response\<close> and \<open>swap_response\<close> are the decoded bodies of the two Jupiter
    requests, nothing when the request raises. These bodies and those of \<open>http_get_json\<close>
    are dictionaries, as the annotations \<^verbatim>\<open>dict | None\<close> of the source have them.
  \<^item> \<open>policy_script_exists\<close> is \<^verbatim>\<open>POLICY_CHECK_SCRIPT.exists()\<close> and \<open>policy_run\<close> the
    run of the script on a request.
  \<^item> \<open>solana_address_read\<close>, \<open>solana_balance_read\<close>, \<open>base_balance_read\<close> and
    \<open>token_accounts_read\<close> are what \<^verbatim>\<open>get_solana_address\<close>,
    \<^verbatim>\<open>get_solana_balance\<close>, \<^verbatim>\<open>get_base_balance\<close> and
    \<^verbatim>\<open>get_solana_token_accounts\<close> return.
  \<^item> \<open>policy_loaded\<close> is what the loading block of \<^verbatim>\<open>get_policy_status\<close> leaves in
    \<^verbatim>\<open>policy\<close>; \<open>ledger_file\<close> and \<open>last_tx_file\<close> are
    \<^verbatim>\<open>_read_json(POLICY_LEDGER, {})\<close> and \<^verbatim>\<open>_read_json(POLICY_LAST_TX, {})\<close>.
  \<^item> \<open>utc_day\<close> is \<^verbatim>\<open>time.strftime("%Y-%m-%d", time.gmtime())\<close>, \<open>unix_time\<close> is
    \<^verbatim>\<open>int(time.time())\<close>, and \<open>clock k\<close> is the \<open>k\<close>-th reading of
    \<^verbatim>\<open>datetime.now(timezone.utc)\<close> within one call, in microseconds since the epoch.
  \<^item> \<open>py_str\<close> and \<open>format_2f\<close> are the interpreter's \<^verbatim>\<open>str(x)\<close> and
    \<^verbatim>\<open>f"{x:.2f}"\<close>.
  A timestamp is kept as the instant it denotes: where the program stores the ISO-8601
  text of an instant in a \<^verbatim>\<open>ts\<close> field, the model stores \<open>JInt\<close> of its microseconds,
  and any other value stands for a text that \<^verbatim>\<open>datetime.fromisoformat\<close> rejects.

  The effects are the HTTP requests, the Jupiter quote and build requests, every call of
  \<^verbatim>\<open>check_policy\<close> (with the request it sends), and every record appended to the event
  log and to the decision log. Appending to a file is taken to succeed.
\<close>

datatype effect =
    HttpGet string "(string \<times> string) list"
  | QuoteRequest string string int int
  | PolicyCheck policy_request
  | BuildRequest pydict string
  | EventLogged string pydict
  | DecisionRecorded string string pydict

section \<open>Price fetching\<close>

definition COINGECKO_PRICE_URL :: string where
  "COINGECKO_PRICE_URL = ''https://api.coingecko.com/api/v3/simple/price''"

definition DEXSCREENER_URL :: string where
  "DEXSCREENER_URL = ''https://api.dexscreener.com/latest/dex/tokens''"

definition SOL_MINT :: string where
  "SOL_MINT = ''So11111111111111111111111111111111111111112''"

definition USDC_MINT :: string where
  "USDC_MINT = ''EPjFWdd5AufqSSqeM2qN1xzybapC8G4wEGGkZwyTDt1v''"

definition WETH_BASE :: string where
  "WETH_BASE = ''0x4200000000000000000000000000000000000006''"

text \<open>
  A \<^verbatim>\<open>try\<close> block whose handler lists the exceptions it catches and then falls through
  to \<^verbatim>\<open>return None\<close>: a listed exception becomes no price, any other one leaves the
  function.
\<close>

definition catching :: "py_error list \<Rightarrow> py_error + real option \<Rightarrow> py_error + real option" where
  "catching handled r =
     (case r of Inr v \<Rightarrow> Inr v
      | Inl e \<Rightarrow> if e \<in> set handled then Inr None else Inl e)"

text \<open>The body of the \<^verbatim>\<open>try\<close> of \<^verbatim>\<open>_coingecko_price\<close>: \<^verbatim>\<open>float(data[coin_id]["usd"])\<close>.\<close>

definition coingecko_parse :: "pydict \<Rightarrow> string \<Rightarrow> py_error + real option" where
  "coingecko_parse data coin_id =
     (case subscript_key (JObj data) coin_id of Inl e \<Rightarrow> Inl e
      | Inr entry \<Rightarrow>
          (case subscript_key entry ''usd'' of Inl e \<Rightarrow> Inl e
           | Inr v \<Rightarrow> (case py_float v of Inl e \<Rightarrow> Inl e | Inr p \<Rightarrow> Inr (Some p))))"

definition coingecko_price :: "world \<Rightarrow> string \<Rightarrow> (py_error + real option) \<times> effect list" where
  "coingecko_price w coin_id =
     (let params = [(''ids'', coin_id), (''vs_currencies'', ''usd'')];
          data = http_get_json w COINGECKO_PRICE_URL params
      in (case data of
            None \<Rightarrow> Inr None
          | Some d \<Rightarrow>
              if d \<noteq> [] then catching [KeyError, TypeError, ValueError] (coingecko_parse d coin_id)
              else Inr None,
          [HttpGet COINGECKO_PRICE_URL params]))"

text \<open>
  The body of the \<^verbatim>\<open>try\<close> of \<^verbatim>\<open>_dexscreener_price\<close>: the first pair's
  \<^verbatim>\<open>priceUsd\<close> when \<^verbatim>\<open>pairs\<close> is truthy, otherwise nothing.
\<close>

definition dexscreener_parse :: "pydict \<Rightarrow> py_error + real option" where
  "dexscreener_parse data =
     (let pairs = dict_get data ''pairs'' (JArr [])
      in if truthy pairs
         then (case subscript_zero pairs of Inl e \<Rightarrow> Inl e
               | Inr pair0 \<Rightarrow>
                   (case subscript_key pair0 ''priceUsd'' of Inl e \<Rightarrow> Inl e
                    | Inr v \<Rightarrow> (case py_float v of Inl e \<Rightarrow> Inl e | Inr p \<Rightarrow> Inr (Some p))))
         else Inr None)"

definition dexscreener_price :: "world \<Rightarrow> string \<Rightarrow> (py_error + real option) \<times> effect list" where
  "dexscreener_price w token_address =
     (let url = DEXSCREENER_URL @ ''/'' @ token_address;
          data = http_get_json w url []
      in (case data of
            None \<Rightarrow> Inr None
          | Some d \<Rightarrow>
              if d \<noteq> []
              then catching [KeyError, TypeError, ValueError, IndexError] (dexscreener_parse d)
              else Inr None,
          [HttpGet url []]))"

text \<open>\<^verbatim>\<open>if price:\<close> on a \<^verbatim>\<open>float | None\<close>: a price that is there and is not zero.\<close>

definition price_truthy :: "real option \<Rightarrow> bool" where
  "price_truthy p = (case p of None \<Rightarrow> False | Some x \<Rightarrow> x \<noteq> 0)"

text \<open>
  The primary source first, the fallback only when the primary's answer is falsy; an
  exception of either source would leave the resolver with the effects made so far.
\<close>

definition with_fallback ::
  "(py_error + real option) \<times> effect list \<Rightarrow> ((py_error + real option) \<times> effect list)
     \<Rightarrow> (py_error + real option) \<times> effect list" where
  "with_fallback primary fallback =
     (case primary of
        (Inl e, t1) \<Rightarrow> (Inl e, t1)
      | (Inr price, t1) \<Rightarrow>
          if price_truthy price then (Inr price, t1)
          else (case fallback of (r2, t2) \<Rightarrow> (r2, t1 @ t2)))"

definition get_sol_price :: "world \<Rightarrow> (py_error + real option) \<times> effect list" where
  "get_sol_price w = with_fallback (coingecko_price w ''solana'') (dexscreener_price w SOL_MINT)"

definition get_eth_price :: "world \<Rightarrow> (py_error + real option) \<times> effect list" where
  "get_eth_price w = with_fallback (coingecko_price w ''ethereum'') (dexscreener_price w WETH_BASE)"

definition get_token_price :: "world \<Rightarrow> string \<Rightarrow> (py_error + real option) \<times> effect list" where
  "get_token_price w mint = dexscreener_price w mint"

section \<open>Policy\<close>

text \<open>
  \<^verbatim>\<open>check_policy\<close> runs the policy script on the request and reports
  \<^verbatim>\<open>(returncode == 0, stdout.strip() or stderr.strip())\<close>.
\<close>

definition check_policy ::
  "world \<Rightarrow> string \<Rightarrow> real \<Rightarrow> string \<Rightarrow> bool \<Rightarrow> (bool \<times> string) \<times> effect list" where
  "check_policy w chain value_usd to commit =
     (let req = \<lparr>req_chain = chain, req_value_usd = value_usd, req_to = to, req_commit = commit\<rparr>
      in (if \<not> policy_script_exists w then (False, ''policy_check.py not found'')
          else (case policy_run w req of
                  Raised msg \<Rightarrow> (False, ''policy check error: '' @ msg)
                | Completed returncode out err \<Rightarrow>
                    (returncode = 0, if strip out \<noteq> [] then strip out else strip err)),
          [PolicyCheck req]))"

text \<open>\<^verbatim>\<open>x.get(k, default)\<close> on a decoded value: only a dictionary has the method.\<close>

fun json_get :: "json \<Rightarrow> string \<Rightarrow> json \<Rightarrow> py_error + json" where
  "json_get (JObj kvs) k dflt = Inr (dict_get kvs k dflt)"
| "json_get _ k dflt = Inl AttributeError"

text \<open>A value as an operand of \<^verbatim>\<open>-\<close>, \<^verbatim>\<open>/\<close> or \<^verbatim>\<open>>\<close> against a number.\<close>

fun as_number :: "json \<Rightarrow> py_error + real" where
  "as_number (JInt i) = Inr (real_of_int i)"
| "as_number (JFloat r) = Inr r"
| "as_number (JBool b) = Inr (if b then 1 else 0)"
| "as_number _ = Inl TypeError"

record policy_status =
  mode :: json
  max_tx_usd :: real
  max_daily_usd :: real
  max_daily_txs :: int
  daily_spent_usd :: json
  daily_tx_count :: json
  daily_remaining_usd :: real
  cooldown_seconds :: int
  cooldown_remaining :: int

text \<open>Sequencing of steps that may raise.\<close>

definition py_bind :: "py_error + 'a \<Rightarrow> ('a \<Rightarrow> py_error + 'b) \<Rightarrow> py_error + 'b" where
  "py_bind r f = (case r of Inl e \<Rightarrow> Inl e | Inr v \<Rightarrow> f v)"

definition get_field_float :: "json \<Rightarrow> string \<Rightarrow> py_error + real" where
  "get_field_float d k = py_bind (json_get d k (JInt 0)) py_float"

definition get_field_int :: "json \<Rightarrow> string \<Rightarrow> py_error + int" where
  "get_field_int d k = py_bind (json_get d k (JInt 0)) py_int"

definition get_policy_status :: "world \<Rightarrow> py_error + policy_status" where
  "get_policy_status w =
     (let policy = policy_loaded w; ledger = ledger_file w; last_tx = last_tx_file w;
          day_key = utc_day w
      in py_bind (json_get ledger day_key (JObj [(''count'', JInt 0), (''value_usd'', JFloat 0)]))
           (\<lambda>day_entry.
         py_bind (get_field_float policy ''max_daily_value_usd'') (\<lambda>max_daily.
         py_bind (get_field_float policy ''max_tx_value_usd'') (\<lambda>max_tx.
         py_bind (get_field_int policy ''max_daily_txs'') (\<lambda>max_daily_txs.
         py_bind (get_field_int policy ''cooldown_seconds'') (\<lambda>cooldown.
         py_bind (json_get policy ''mode'' (JStr ''UNKNOWN'')) (\<lambda>mode.
         py_bind (get_field_int last_tx ''ts'') (\<lambda>last_ts.
         let cooldown_remaining =
               (if cooldown > 0 \<and> last_ts > 0
                then max 0 (cooldown - (unix_time w - last_ts)) else 0)
         in
         py_bind (json_get day_entry ''value_usd'' (JFloat 0)) (\<lambda>spent.
         py_bind (json_get day_entry ''count'' (JInt 0)) (\<lambda>tx_count.
         py_bind (as_number spent) (\<lambda>spent_number.
           Inr \<lparr>mode = mode, max_tx_usd = max_tx, max_daily_usd = max_daily,
                max_daily_txs = max_daily_txs, daily_spent_usd = spent,
                daily_tx_count = tx_count,
                daily_remaining_usd = max 0 (max_daily - spent_number),
                cooldown_seconds = cooldown,
                cooldown_remaining = cooldown_remaining\<rparr>)))))))))))"

section \<open>Portfolio\<close>

record holding =
  chain_id :: string
  symbol :: string
  mint :: string
  amount :: real
  price_usd :: real
  value_usd :: real

record portfolio_snapshot =
  ts :: int
  total_value_usd :: real
  holdings :: "holding list"
  sol_balance :: "real option"
  sol_price :: "real option"
  base_balance :: "real option"
  eth_price :: "real option"
  policy :: policy_status

text \<open>
  The two files the aggregator owns: the latest snapshot, and the history, one JSON record
  per line, where a blank line or a line that does not decode holds nothing.
\<close>

record files =
  portfolio_file :: "portfolio_snapshot option"
  portfolio_history :: "json option list"

text \<open>
  One pass of \<^verbatim>\<open>val = amount * price; total_value += val; holdings.append({...})\<close> on
  the two accumulators of \<^verbatim>\<open>compute_portfolio_snapshot\<close>.
\<close>

definition add_holding ::
  "holding list \<times> real \<Rightarrow> string \<Rightarrow> string \<Rightarrow> string \<Rightarrow> real \<Rightarrow> real \<Rightarrow> holding list \<times> real" where
  "add_holding acc c sy m amt price =
     (case acc of (hs, total_value) \<Rightarrow>
        let val = amt * price
        in (hs @ [\<lparr>chain_id = c, symbol = sy, mint = m, amount = amt, price_usd = price,
                    value_usd = val\<rparr>],
            total_value + val))"

text \<open>
  The guard \<^verbatim>\<open>if bal is not None and price is not None:\<close> around such a pass, as the
  native SOL and ETH balances have it.
\<close>

definition add_if_resolved ::
  "holding list \<times> real \<Rightarrow> string \<Rightarrow> string \<Rightarrow> string \<Rightarrow> real option \<Rightarrow> real option
     \<Rightarrow> holding list \<times> real" where
  "add_if_resolved acc c sy m bal price =
     (case bal of
        None \<Rightarrow> acc
      | Some b \<Rightarrow> (case price of None \<Rightarrow> acc | Some p \<Rightarrow> add_holding acc c sy m b p))"

text \<open>The loop over the token accounts.\<close>

fun token_loop ::
  "world \<Rightarrow> token_account list \<Rightarrow> holding list \<times> real
     \<Rightarrow> (py_error + holding list \<times> real) \<times> effect list" where
  "token_loop w [] acc = (Inr acc, [])"
| "token_loop w (tok # toks) acc =
     (case get_token_price w (tok_mint tok) of
        (Inl e, t) \<Rightarrow> (Inl e, t)
      | (Inr price, t) \<Rightarrow>
          let acc' = (case price of
                        None \<Rightarrow> acc
                      | Some p \<Rightarrow>
                          add_holding acc ''solana'' (take 8 (tok_mint tok)) (tok_mint tok)
                            (tok_amount tok) p)
          in (case token_loop w toks acc' of (r, t') \<Rightarrow> (r, t @ t')))"

definition json_of_number :: "real option \<Rightarrow> json" where
  "json_of_number p = (case p of None \<Rightarrow> JNull | Some x \<Rightarrow> JFloat x)"

definition history_entry :: "portfolio_snapshot \<Rightarrow> json" where
  "history_entry snapshot =
     JObj [(''ts'', JInt (ts snapshot)),
           (''total_value_usd'', JFloat (total_value_usd snapshot)),
           (''sol_balance'', json_of_number (sol_balance snapshot)),
           (''sol_price'', json_of_number (sol_price snapshot)),
           (''base_balance'', json_of_number (base_balance snapshot)),
           (''eth_price'', json_of_number (eth_price snapshot)),
           (''holdings_count'', JInt (int (length (holdings snapshot))))]"

definition compute_portfolio_snapshot ::
  "world \<Rightarrow> files \<Rightarrow> (py_error + portfolio_snapshot \<times> files) \<times> effect list" where
  "compute_portfolio_snapshot w fs =
     (let sol_bal = solana_balance_read w
      in (case get_sol_price w of
            (Inl e, t1) \<Rightarrow> (Inl e, t1)
          | (Inr sol_pr, t1) \<Rightarrow>
     (let base_bal = base_balance_read w
      in (case get_eth_price w of
            (Inl e, t2) \<Rightarrow> (Inl e, t1 @ t2)
          | (Inr eth_pr, t2) \<Rightarrow>
     (let tokens = token_accounts_read w;
          acc0 = ([], 0);
          acc1 = add_if_resolved acc0 ''solana'' ''SOL'' SOL_MINT sol_bal sol_pr;
          acc2 = add_if_resolved acc1 ''base'' ''ETH'' ''native'' base_bal eth_pr
      in (case token_loop w tokens acc2 of
            (Inl e, t3) \<Rightarrow> (Inl e, t1 @ t2 @ t3)
          | (Inr (hs, total_value), t3) \<Rightarrow>
              (case get_policy_status w of
                 Inl e \<Rightarrow> (Inl e, t1 @ t2 @ t3)
               | Inr st \<Rightarrow>
                   (let snapshot = \<lparr>ts = clock w 0, total_value_usd = py_round2 total_value,
                                     holdings = hs, sol_balance = sol_bal, sol_price = sol_pr,
                                     base_balance = base_bal, eth_price = eth_pr,
                                     policy = st\<rparr>
                    in (Inr (snapshot,
                             \<lparr>portfolio_file = Some snapshot,
                              portfolio_history =
                                portfolio_history fs @ [Some (history_entry snapshot)]\<rparr>),
                        t1 @ t2 @ t3)))))))))"







section \<open>Event and decision logs\<close>

text \<open>
  \<^verbatim>\<open>log_financial_event\<close> appends one record to the event log and then tries to send a
  Telegram note, whose failure it swallows; \<^verbatim>\<open>record_decision\<close> appends one record to
  the decision log. The record's own timestamp is left out of the effect.
\<close>

definition log_financial_event :: "string \<Rightarrow> pydict \<Rightarrow> effect list" where
  "log_financial_event event_type data = [EventLogged event_type data]"

definition record_decision :: "string \<Rightarrow> string \<Rightarrow> pydict \<Rightarrow> effect list" where
  "record_decision decision_type reasoning data = [DecisionRecorded decision_type reasoning data]"

section \<open>Jupiter swap integration\<close>

definition jupiter_get_quote ::
  "world \<Rightarrow> string \<Rightarrow> string \<Rightarrow> int \<Rightarrow> int \<Rightarrow> pydict option \<times> effect list" where
  "jupiter_get_quote w input_mint output_mint amt slippage_bps =
     (quote_response w input_mint output_mint amt slippage_bps,
      [QuoteRequest input_mint output_mint amt slippage_bps])"

text \<open>
  \<^verbatim>\<open>jupiter_get_swap_tx\<close>: the \<^verbatim>\<open>swapTransaction\<close> field of a truthy response,
  \<^verbatim>\<open>None\<close> otherwise.
\<close>

definition jupiter_get_swap_tx :: "world \<Rightarrow> pydict \<Rightarrow> string \<Rightarrow> json \<times> effect list" where
  "jupiter_get_swap_tx w q user_pubkey =
     ((case swap_response w q user_pubkey of
         None \<Rightarrow> JNull
       | Some data \<Rightarrow> if data \<noteq> [] then dict_get data ''swapTransaction'' JNull else JNull),
      [BuildRequest q user_pubkey])"

record swap_result =
  status :: string
  dry_run :: bool
  error :: "string option"
  quote :: "pydict option"
  policy_result :: "(bool \<times> string) option"
  swap_transaction_b64 :: "json option"

text \<open>
  The valuation block of \<^verbatim>\<open>jupiter_swap\<close>. Its handler catches
  \<^verbatim>\<open>ValueError\<close> and \<^verbatim>\<open>TypeError\<close> and sets the value to zero; the price is fetched
  only after \<^verbatim>\<open>inAmount\<close> has been read as an integer.
\<close>

definition swap_value :: "world \<Rightarrow> pydict \<Rightarrow> string \<Rightarrow> (py_error + real) \<times> effect list" where
  "swap_value w q input_mint =
     (case py_int (dict_get q ''inAmount'' (JInt 0)) of
        Inl e \<Rightarrow> (if e \<in> set [ValueError, TypeError] then Inr 0 else Inl e, [])
      | Inr in_amount \<Rightarrow>
          (case get_sol_price w of
             (Inl e, t) \<Rightarrow> (if e \<in> set [ValueError, TypeError] then Inr 0 else Inl e, t)
           | (Inr price, t) \<Rightarrow>
               let sol_pr = (if price_truthy price then (case price of Some p \<Rightarrow> p | None \<Rightarrow> 0)
                             else 0)
               in (Inr (if input_mint = SOL_MINT
                        then (real_of_int in_amount / 1000000000) * sol_pr
                        else 0),
                   t)))"

text \<open>The dictionary stored under \<^verbatim>\<open>result["quote"]\<close>.\<close>

definition quote_details :: "world \<Rightarrow> pydict \<Rightarrow> string \<Rightarrow> string \<Rightarrow> real \<Rightarrow> pydict" where
  "quote_details w q input_mint output_mint v_usd =
     [(''input_mint'', JStr input_mint),
      (''output_mint'', JStr output_mint),
      (''in_amount'', JStr (py_str w (dict_get q ''inAmount'' (JStr [])))),
      (''out_amount'', JStr (py_str w (dict_get q ''outAmount'' (JStr [])))),
      (''price_impact_pct'', dict_get q ''priceImpactPct'' (JStr ''?'')),
      (''estimated_value_usd'', JFloat (py_round2 v_usd))]"

definition jupiter_swap ::
  "world \<Rightarrow> string \<Rightarrow> string \<Rightarrow> int \<Rightarrow> int \<Rightarrow> bool \<Rightarrow> (py_error + swap_result) \<times> effect list" where
  "jupiter_swap w input_mint output_mint amt slippage_bps dry =
     (let result0 = \<lparr>status = ''error'', dry_run = dry, error = None, quote = None,
                      policy_result = None, swap_transaction_b64 = None\<rparr>
      in case jupiter_get_quote w input_mint output_mint amt slippage_bps of (quote_opt, t_quote) \<Rightarrow>
         (case quote_opt of
            None \<Rightarrow> (Inr (result0\<lparr>error := Some ''Failed to get Jupiter quote''\<rparr>), t_quote)
          | Some q \<Rightarrow>
         if q = [] then (Inr (result0\<lparr>error := Some ''Failed to get Jupiter quote''\<rparr>), t_quote)
         else
         (case swap_value w q input_mint of
            (Inl e, t_value) \<Rightarrow> (Inl e, t_quote @ t_value)
          | (Inr v_usd, t_value) \<Rightarrow>
         (let details = quote_details w q input_mint output_mint v_usd;
              result1 = result0\<lparr>quote := Some details\<rparr>
          in case check_policy w ''solana'' v_usd ''jupiter_swap'' False of
               ((allowed, policy_msg), t_check) \<Rightarrow>
         (let result2 = result1\<lparr>policy_result := Some (allowed, policy_msg)\<rparr>
          in if \<not> allowed
             then (Inr (result2\<lparr>status := ''policy_denied''\<rparr>),
                   t_quote @ t_value @ t_check
                     @ log_financial_event ''swap_denied'' ((''reason'', JStr policy_msg) # details))
             else if dry
             then (Inr (result2\<lparr>status := ''quote_ready''\<rparr>), t_quote @ t_value @ t_check)
             else
         (let address = solana_address_read w
          in if address = []
             then (Inr (result2\<lparr>error := Some ''No Solana wallet address'', status := ''error''\<rparr>),
                   t_quote @ t_value @ t_check)
             else
         (case jupiter_get_swap_tx w q address of (swap_tx, t_build) \<Rightarrow>
             if \<not> truthy swap_tx
             then (Inr (result2\<lparr>error := Some ''Failed to build swap transaction'',
                                status := ''error''\<rparr>),
                   t_quote @ t_value @ t_check @ t_build)
             else
         (let t_commit = snd (check_policy w ''solana'' v_usd ''jupiter_swap'' True)
          in
             (Inr (result2\<lparr>swap_transaction_b64 := Some swap_tx, status := ''tx_ready''\<rparr>),
              t_quote @ t_value @ t_check @ t_build @ t_commit
                @ log_financial_event ''swap''
                    [(''chain'', JStr ''solana''),
                     (''value_usd'', JFloat v_usd),
                     (''input_mint'', JStr input_mint),
                     (''output_mint'', JStr output_mint),
                     (''in_amount'', JStr (py_str w (dict_get q ''inAmount'' (JStr [])))),
                     (''out_amount'', JStr (py_str w (dict_get q ''outAmount'' (JStr []))))]
                @ record_decision ''swap_executed''
                    (''Jupiter swap '' @ take 8 input_mint @ ''->'' @ take 8 output_mint
                       @ '', ~$'' @ format_2f w v_usd)
                    details)))))))))"

section \<open>Example worlds\<close>

text \<open>
  A world in which nothing answers: no network, no policy script, no wallet, empty files.
  The examples below change it where they need an answer. They only render strings, so
  their \<open>py_str\<close> is exact on strings alone.
\<close>

definition quiet_world :: world where
  "quiet_world =
     \<lparr>http_get_json = (\<lambda>url params. None),
      quote_response = (\<lambda>input_mint output_mint amt slippage_bps. None),
      swap_response = (\<lambda>q user_pubkey. None),
      policy_script_exists = False,
      policy_run = (\<lambda>req. Raised ''[Errno 2] No such file or directory''),
      solana_address_read = [],
      solana_balance_read = None,
      base_balance_read = None,
      token_accounts_read = [],
      policy_loaded = JObj [],
      ledger_file = JObj [],
      last_tx_file = JObj [],
      utc_day = ''2024-01-02'',
      unix_time = 1704196800,
      clock = (\<lambda>k. 1704196800000000 + int k),
      py_str = (\<lambda>v. case v of JStr s \<Rightarrow> s | _ \<Rightarrow> ''?''),
      format_2f = (\<lambda>x. ''?'')\<rparr>"

text \<open>CoinGecko answers \<^verbatim>\<open>{"solana": {"usd": 150.0}}\<close>; DexScreener is down.\<close>

definition world_coingecko_up :: world where
  "world_coingecko_up =
     quiet_world\<lparr>http_get_json :=
       (\<lambda>url params. if url = COINGECKO_PRICE_URL
                        then Some [(''solana'', JObj [(''usd'', JFloat 150)])] else None)\<rparr>"





text \<open>
  What the specification asks of the holdings: the (chain, asset) pairs for which both a
  balance and a price were resolved, each with its balance and its price, native SOL first,
  then native ETH, then the token accounts in their order.
\<close>

definition resolved_pairs :: "world \<Rightarrow> (string \<times> string \<times> real \<times> real) list" where
  "resolved_pairs w =
     (case (solana_balance_read w, fst (get_sol_price w)) of
        (Some b, Inr (Some p)) \<Rightarrow> [(''solana'', SOL_MINT, b, p)]
      | _ \<Rightarrow> [])
     @ (case (base_balance_read w, fst (get_eth_price w)) of
          (Some b, Inr (Some p)) \<Rightarrow> [(''base'', ''native'', b, p)]
        | _ \<Rightarrow> [])
     @ concat (map (\<lambda>tok. case fst (get_token_price w (tok_mint tok)) of
                            Inr (Some p) \<Rightarrow> [(''solana'', tok_mint tok, tok_amount tok, p)]
                          | _ \<Rightarrow> [])
                (token_accounts_read w))"

definition pair_of :: "holding \<Rightarrow> string \<times> string \<times> real \<times> real" where
  "pair_of h = (chain_id h, mint h, amount h, price_usd h)"

definition token_pairs ::
  "world \<Rightarrow> token_account list \<Rightarrow> (string \<times> string \<times> real \<times> real) list" where
  "token_pairs w toks =
     concat (map (\<lambda>tok. case fst (get_token_price w (tok_mint tok)) of
                            Inr (Some p) \<Rightarrow> [(''solana'', tok_mint tok, tok_amount tok, p)]
                          | _ \<Rightarrow> [])
                toks)"

text \<open>The invariant of the two accumulators of the aggregator.\<close>

definition consistent :: "holding list \<times> real \<Rightarrow> bool" where
  "consistent acc =
     (case acc of (hs, tot) \<Rightarrow>
        (\<forall>h \<in> set hs. value_usd h = amount h * price_usd h)
        \<and> tot = sum_list (map value_usd hs))"

text \<open>
  A wallet with 2 SOL, 1 ETH on Base, 10 USDC and 5 units of a token no source knows.
  CoinGecko quotes SOL at 150 and has nothing for ETH; DexScreener quotes USDC at 1.0 and
  nothing else.
\<close>

definition UNKNOWN_MINT :: string where
  "UNKNOWN_MINT = ''Unknown1111111111111111111111111111111111111''"

definition world_portfolio :: world where
  "world_portfolio =
     quiet_world\<lparr>http_get_json :=
       (\<lambda>url params.
          if url = COINGECKO_PRICE_URL
          then Some [(''solana'', JObj [(''usd'', JFloat 150)])]
          else if url = DEXSCREENER_URL @ ''/'' @ USDC_MINT
          then Some [(''pairs'', JArr [JObj [(''priceUsd'', JStr ''1.0'')]])]
          else None),
       solana_balance_read := Some 2,
       base_balance_read := Some 1,
       token_accounts_read :=
         [\<lparr>tok_mint = USDC_MINT, tok_amount = 10, tok_decimals = 6\<rparr>,
          \<lparr>tok_mint = UNKNOWN_MINT, tok_amount = 5, tok_decimals = 9\<rparr>]\<rparr>"

definition empty_files :: files where
  "empty_files = \<lparr>portfolio_file = None, portfolio_history = []\<rparr>"








text \<open>The two kinds of effect a swap must order: a committing policy call, and a build.\<close>

fun is_commit_call :: "effect \<Rightarrow> bool" where
  "is_commit_call (PolicyCheck req) = req_commit req"
| "is_commit_call _ = False"

fun is_build_call :: "effect \<Rightarrow> bool" where
  "is_build_call (BuildRequest q user_pubkey) = True"
| "is_build_call _ = False"

text \<open>
  A world in which a swap of one SOL goes through: Jupiter quotes
  \<^verbatim>\<open>{"inAmount": "1000000000", "outAmount": "150000000", "priceImpactPct": "0.01"}\<close>,
  CoinGecko prices SOL at 150, the policy script allows, the wallet has an address, and
  Jupiter builds the transaction \<^verbatim>\<open>AQID\<close>.
\<close>

definition example_quote :: pydict where
  "example_quote =
     [(''inAmount'', JStr ''1000000000''), (''outAmount'', JStr ''150000000''),
      (''priceImpactPct'', JStr ''0.01'')]"

definition world_swap_ready :: world where
  "world_swap_ready =
     world_coingecko_up\<lparr>quote_response :=
                            (\<lambda>input_mint output_mint amt slippage_bps. Some example_quote),
                         swap_response :=
                            (\<lambda>q user_pubkey. Some [(''swapTransaction'', JStr ''AQID'')]),
                         policy_script_exists := True,
                         policy_run := (\<lambda>req. Completed 0 ''ALLOW'' []),
                         solana_address_read := ''Wallet1111''\<rparr>"


text \<open>The same world without a wallet: \<^verbatim>\<open>get_solana_address\<close> returns the empty string.\<close>

definition world_no_wallet :: world where
  "world_no_wallet = world_swap_ready\<lparr>solana_address_read := []\<rparr>"



text \<open>The requests to the price sources, which neither build nor commit anything.\<close>

fun is_http_get :: "effect \<Rightarrow> bool" where
  "is_http_get (HttpGet url params) = True"
| "is_http_get _ = False"

section \<open>Properties\<close>

subsection \<open>No source lets an exception out\<close>

lemma float_of_str_errors: "float_of_str s = Inl e \<Longrightarrow> e = ValueError"
  by (auto simp: float_of_str_def Let_def split: prod.splits if_splits)

lemma py_float_errors: "py_float v = Inl e \<Longrightarrow> e = TypeError \<or> e = ValueError"
  by (cases v) (auto dest: float_of_str_errors)

lemma subscript_key_errors: "subscript_key v k = Inl e \<Longrightarrow> e = KeyError \<or> e = TypeError"
  by (cases v) (auto split: option.splits)

lemma subscript_zero_errors:
  "subscript_zero v = Inl e \<Longrightarrow> e = IndexError \<or> e = KeyError \<or> e = TypeError"
  by (cases v rule: subscript_zero.cases) auto

lemma coingecko_parse_errors:
  "coingecko_parse d c = Inl e \<Longrightarrow> e \<in> set [KeyError, TypeError, ValueError]"
  unfolding coingecko_parse_def
  by (auto split: sum.splits option.splits dest: subscript_key_errors py_float_errors)

lemma dexscreener_parse_errors:
  "dexscreener_parse d = Inl e \<Longrightarrow> e \<in> set [KeyError, TypeError, ValueError, IndexError]"
  unfolding dexscreener_parse_def Let_def
  by (auto split: sum.splits if_splits
        dest: subscript_key_errors py_float_errors subscript_zero_errors)

lemma catching_total:
  "(\<And>e. r = Inl e \<Longrightarrow> e \<in> set handled) \<Longrightarrow> \<exists>p. catching handled r = Inr p"
  by (cases r) (auto simp: catching_def)

lemma coingecko_price_returns: "\<exists>p. fst (coingecko_price w c) = Inr p"
  unfolding coingecko_price_def Let_def
  using catching_total [OF coingecko_parse_errors]
  by (auto split: option.splits)

lemma dexscreener_price_returns: "\<exists>p. fst (dexscreener_price w a) = Inr p"
  unfolding dexscreener_price_def Let_def
  using catching_total [OF dexscreener_parse_errors]
  by (auto split: option.splits)

lemma coingecko_price_effects:
  "snd (coingecko_price w c)
     = [HttpGet COINGECKO_PRICE_URL [(''ids'', c), (''vs_currencies'', ''usd'')]]"
  by (simp add: coingecko_price_def Let_def)

lemma dexscreener_price_effects:
  "snd (dexscreener_price w a) = [HttpGet (DEXSCREENER_URL @ ''/'' @ a) []]"
  by (simp add: dexscreener_price_def Let_def)

lemma with_fallback_returns:
  "\<exists>p. fst a = Inr p \<Longrightarrow> \<exists>p. fst b = Inr p \<Longrightarrow> \<exists>p. fst (with_fallback a b) = Inr p"
  by (cases a; cases b) (auto simp: with_fallback_def split: sum.splits)



lemma get_sol_price_returns: "\<exists>p. fst (get_sol_price w) = Inr p"
  unfolding get_sol_price_def
  by (rule with_fallback_returns [OF coingecko_price_returns dexscreener_price_returns])

lemma get_eth_price_returns: "\<exists>p. fst (get_eth_price w) = Inr p"
  unfolding get_eth_price_def
  by (rule with_fallback_returns [OF coingecko_price_returns dexscreener_price_returns])

subsection \<open>The order of the price sources\<close>





subsection \<open>The policy gate fails closed\<close>



subsection \<open>The policy status reads the bucket of the day\<close>










subsection \<open>The holdings of a snapshot\<close>

lemma consistent_add: "consistent acc \<Longrightarrow> consistent (add_holding acc c sy m a p)"
  by (cases acc) (auto simp: consistent_def add_holding_def Let_def)

lemma pairs_add:
  "map pair_of (fst (add_holding acc c sy m a p)) = map pair_of (fst acc) @ [(c, m, a, p)]"
  by (cases acc) (simp add: add_holding_def Let_def pair_of_def)

lemma consistent_add_if:
  "consistent acc \<Longrightarrow> consistent (add_if_resolved acc c sy m bal price)"
  by (auto simp: add_if_resolved_def consistent_add split: option.splits)

lemma pairs_add_if:
  "map pair_of (fst (add_if_resolved acc c sy m bal price))
     = map pair_of (fst acc)
       @ (case (bal, price) of (Some b, Some p) \<Rightarrow> [(c, m, b, p)] | _ \<Rightarrow> [])"
  by (auto simp: add_if_resolved_def pairs_add split: option.splits)

lemma token_loop_result:
  "\<exists>acc' t. token_loop w toks acc = (Inr acc', t)
      \<and> map pair_of (fst acc') = map pair_of (fst acc) @ token_pairs w toks
      \<and> (consistent acc \<longrightarrow> consistent acc')"
proof (induction toks arbitrary: acc)
  case Nil
  show ?case by (simp add: token_pairs_def)
next
  case (Cons tok toks)
  obtain price t where g: "get_token_price w (tok_mint tok) = (Inr price, t)"
    using dexscreener_price_returns [of w "tok_mint tok"]
    by (cases "get_token_price w (tok_mint tok)") (auto simp: get_token_price_def)
  show ?case
  proof (cases price)
    case None
    from Cons.IH [of acc] obtain acc' t' where
      "token_loop w toks acc = (Inr acc', t')"
      "map pair_of (fst acc') = map pair_of (fst acc) @ token_pairs w toks"
      "consistent acc \<longrightarrow> consistent acc'" by blast
    with g None show ?thesis by (simp add: token_pairs_def)
  next
    case (Some p)
    let ?a = "add_holding acc ''solana'' (take 8 (tok_mint tok)) (tok_mint tok) (tok_amount tok) p"
    from Cons.IH [of ?a] obtain acc' t' where
      "token_loop w toks ?a = (Inr acc', t')"
      "map pair_of (fst acc') = map pair_of (fst ?a) @ token_pairs w toks"
      "consistent ?a \<longrightarrow> consistent acc'" by blast
    with g Some show ?thesis
      by (simp add: token_pairs_def pairs_add consistent_add)
  qed
qed

text \<open>
  C5. Whenever the policy status can be read, the aggregator returns a snapshot whose
  holdings are, in order, exactly the pairs for which both a balance and a price were
  resolved, each with that balance as its amount and that price as its price; a pair that
  misses either has no row. Every holding's \<open>value_usd\<close> is its amount times its price, and
  \<open>total_value_usd\<close> is the sum of the unrounded \<open>value_usd\<close> of the holdings, rounded to
  two decimal places.
\<close>

theorem snapshot_holdings:
  assumes "get_policy_status w = Inr st"
  shows "\<exists>snap fs'. fst (compute_portfolio_snapshot w fs) = Inr (snap, fs')
     \<and> map pair_of (holdings snap) = resolved_pairs w
     \<and> (\<forall>h \<in> set (holdings snap). value_usd h = amount h * price_usd h)
     \<and> total_value_usd snap = py_round2 (sum_list (map value_usd (holdings snap)))"
proof -
  obtain sp t1 where s: "get_sol_price w = (Inr sp, t1)"
    using get_sol_price_returns [of w] by (cases "get_sol_price w") auto
  obtain ep t2 where e: "get_eth_price w = (Inr ep, t2)"
    using get_eth_price_returns [of w] by (cases "get_eth_price w") auto
  define acc1 where
    "acc1 = add_if_resolved ([], 0) ''solana'' ''SOL'' SOL_MINT (solana_balance_read w) sp"
  define acc2 where
    "acc2 = add_if_resolved acc1 ''base'' ''ETH'' ''native'' (base_balance_read w) ep"
  have c2: "consistent acc2"
    unfolding acc2_def acc1_def
    by (intro consistent_add_if) (simp add: consistent_def)
  have p2: "map pair_of (fst acc2)
      = (case (solana_balance_read w, fst (get_sol_price w)) of
           (Some b, Inr (Some p)) \<Rightarrow> [(''solana'', SOL_MINT, b, p)]
         | _ \<Rightarrow> [])
        @ (case (base_balance_read w, fst (get_eth_price w)) of
             (Some b, Inr (Some p)) \<Rightarrow> [(''base'', ''native'', b, p)]
           | _ \<Rightarrow> [])"
    unfolding acc2_def acc1_def pairs_add_if using s e
    by (auto split: option.splits)
  obtain acc3 t3 where l: "token_loop w (token_accounts_read w) acc2 = (Inr acc3, t3)"
    and p3: "map pair_of (fst acc3) = map pair_of (fst acc2) @ token_pairs w (token_accounts_read w)"
    and c3: "consistent acc3"
    using token_loop_result [of w "token_accounts_read w" acc2] c2 by blast
  obtain hs tot where a3: "acc3 = (hs, tot)" by (cases acc3)
  define snap where
    "snap = \<lparr>ts = clock w 0, total_value_usd = py_round2 tot, holdings = hs,
             sol_balance = solana_balance_read w, sol_price = sp,
             base_balance = base_balance_read w, eth_price = ep, policy = st\<rparr>"
  have run: "fst (compute_portfolio_snapshot w fs)
     = Inr (snap, \<lparr>portfolio_file = Some snap,
                   portfolio_history = portfolio_history fs @ [Some (history_entry snap)]\<rparr>)"
    unfolding compute_portfolio_snapshot_def Let_def s e prod.case sum.case
    unfolding acc1_def [symmetric]
    unfolding acc2_def [symmetric]
    unfolding l a3 assms prod.case sum.case snap_def
    by simp
  have pairs: "map pair_of hs = resolved_pairs w"
    using p2 p3 a3 by (simp add: resolved_pairs_def token_pairs_def)
  from c3 a3 have "(\<forall>h \<in> set hs. value_usd h = amount h * price_usd h)"
    and "tot = sum_list (map value_usd hs)"
    by (simp_all add: consistent_def)
  with run pairs show ?thesis by (simp add: snap_def)
qed

lemma portfolio_sol_price: "get_sol_price world_portfolio = (Inr (Some 150), [HttpGet COINGECKO_PRICE_URL [(''ids'', ''solana''), (''vs_currencies'', ''usd'')]])"
  by (simp add: get_sol_price_def with_fallback_def price_truthy_def coingecko_price_def
      world_portfolio_def quiet_world_def Let_def COINGECKO_PRICE_URL_def catching_def
      coingecko_parse_def)

lemma portfolio_eth_price: "fst (get_eth_price world_portfolio) = Inr None"
  by (simp add: get_eth_price_def with_fallback_def price_truthy_def coingecko_price_def
      dexscreener_price_def world_portfolio_def quiet_world_def Let_def COINGECKO_PRICE_URL_def
      DEXSCREENER_URL_def WETH_BASE_def USDC_MINT_def catching_def coingecko_parse_def)

lemma portfolio_usdc_price: "fst (get_token_price world_portfolio USDC_MINT) = Inr (Some 1)"
  by (simp add: get_token_price_def dexscreener_price_def world_portfolio_def quiet_world_def
      Let_def COINGECKO_PRICE_URL_def DEXSCREENER_URL_def USDC_MINT_def catching_def
      dexscreener_parse_def dict_get_def float_of_str_def strip_def is_space_def is_digit_def)

lemma portfolio_unknown_price: "fst (get_token_price world_portfolio UNKNOWN_MINT) = Inr None"
  by (simp add: get_token_price_def dexscreener_price_def world_portfolio_def quiet_world_def
      Let_def COINGECKO_PRICE_URL_def DEXSCREENER_URL_def USDC_MINT_def UNKNOWN_MINT_def)

lemma portfolio_resolved_pairs: "resolved_pairs world_portfolio
   = [(''solana'', SOL_MINT, 2, 150), (''solana'', USDC_MINT, 10, 1)]"
proof -
  have a: "solana_balance_read world_portfolio = Some 2"
    "base_balance_read world_portfolio = Some 1"
    "token_accounts_read world_portfolio
       = [\<lparr>tok_mint = USDC_MINT, tok_amount = 10, tok_decimals = 6\<rparr>,
          \<lparr>tok_mint = UNKNOWN_MINT, tok_amount = 5, tok_decimals = 9\<rparr>]"
    by (simp_all add: world_portfolio_def quiet_world_def)
  show ?thesis
    unfolding resolved_pairs_def a by (simp add: portfolio_sol_price portfolio_eth_price portfolio_usdc_price portfolio_unknown_price)
qed


lemma status_quiet_policy:
  "get_policy_status world_portfolio
   = Inr \<lparr>mode = JStr ''UNKNOWN'', max_tx_usd = 0, max_daily_usd = 0, max_daily_txs = 0,
          daily_spent_usd = JFloat 0, daily_tx_count = JInt 0, daily_remaining_usd = 0,
          cooldown_seconds = 0, cooldown_remaining = 0\<rparr>"
  by (simp add: get_policy_status_def world_portfolio_def quiet_world_def Let_def
      py_bind_def dict_get_def get_field_float_def get_field_int_def)

text \<open>
  Of 2 SOL at 150, 1 ETH without a price, 10 USDC at 1.0 and 5 units of an unpriced token,
  the snapshot holds the SOL and the USDC, worth 300 and 10, and totals 310.
\<close>

theorem snapshot_holdings_witness:
  "get_policy_status world_portfolio
     = Inr \<lparr>mode = JStr ''UNKNOWN'', max_tx_usd = 0, max_daily_usd = 0, max_daily_txs = 0,
            daily_spent_usd = JFloat 0, daily_tx_count = JInt 0, daily_remaining_usd = 0,
            cooldown_seconds = 0, cooldown_remaining = 0\<rparr>
   \<and> (\<exists>snap fs'. fst (compute_portfolio_snapshot world_portfolio empty_files) = Inr (snap, fs')
         \<and> map pair_of (holdings snap)
             = [(''solana'', SOL_MINT, 2, 150), (''solana'', USDC_MINT, 10, 1)]
         \<and> map value_usd (holdings snap) = [300, 10]
         \<and> total_value_usd snap = 310)"
proof -
  from snapshot_holdings [OF status_quiet_policy, of empty_files]
  obtain snap fs' where
    run: "fst (compute_portfolio_snapshot world_portfolio empty_files) = Inr (snap, fs')"
    and pairs: "map pair_of (holdings snap) = resolved_pairs world_portfolio"
    and vals: "\<forall>h \<in> set (holdings snap). value_usd h = amount h * price_usd h"
    and tot: "total_value_usd snap = py_round2 (sum_list (map value_usd (holdings snap)))"
    by blast
  from pairs portfolio_resolved_pairs obtain h1 h2 where hs: "holdings snap = [h1, h2]"
    and h1: "pair_of h1 = (''solana'', SOL_MINT, 2, 150)"
    and h2: "pair_of h2 = (''solana'', USDC_MINT, 10, 1)"
    by (auto simp: map_eq_Cons_conv)
  from vals hs h1 h2 have v: "map value_usd (holdings snap) = [300, 10]"
    by (simp add: pair_of_def)
  have "py_round2 310 = 310" by (simp add: py_round2_def Let_def)
  with tot v have t: "total_value_usd snap = 310" by simp
  from pairs portfolio_resolved_pairs have p: "map pair_of (holdings snap)
      = [(''solana'', SOL_MINT, 2, 150), (''solana'', USDC_MINT, 10, 1)]" by simp
  from run p v t have "\<exists>snap fs'.
      fst (compute_portfolio_snapshot world_portfolio empty_files) = Inr (snap, fs')
      \<and> map pair_of (holdings snap)
          = [(''solana'', SOL_MINT, 2, 150), (''solana'', USDC_MINT, 10, 1)]
      \<and> map value_usd (holdings snap) = [300, 10]
      \<and> total_value_usd snap = 310"
    by (intro exI conjI)
  with status_quiet_policy show ?thesis by (intro conjI)
qed

subsection \<open>The change over 24 hours\<close>














subsection \<open>The paths of a swap\<close>

lemma http_get_quiet: "is_http_get e \<Longrightarrow> \<not> is_commit_call e \<and> \<not> is_build_call e"
  by (cases e) auto



lemma with_fallback_effects:
  "\<forall>e \<in> set (snd a). is_http_get e \<Longrightarrow> \<forall>e \<in> set (snd b). is_http_get e \<Longrightarrow>
   \<forall>e \<in> set (snd (with_fallback a b)). is_http_get e"
  by (cases a; cases b) (auto simp: with_fallback_def split: sum.splits)

lemma get_sol_price_effects: "\<forall>e \<in> set (snd (get_sol_price w)). is_http_get e"
  unfolding get_sol_price_def
  by (rule with_fallback_effects) (simp_all add: coingecko_price_effects dexscreener_price_effects)


lemma swap_value_effects: "\<forall>e \<in> set (snd (swap_value w q input_mint)). is_http_get e"
proof (cases "py_int (dict_get q ''inAmount'' (JInt 0))")
  case (Inl e)
  then show ?thesis by (simp add: swap_value_def)
next
  case (Inr n)
  obtain r t where g: "get_sol_price w = (r, t)" by (cases "get_sol_price w")
  with get_sol_price_effects [of w] have "\<forall>e \<in> set t. is_http_get e" by simp
  with Inr g show ?thesis by (cases r) (simp_all add: swap_value_def Let_def)
qed

lemma check_policy_effects:
  "snd (check_policy w chain v to commit)
     = [PolicyCheck \<lparr>req_chain = chain, req_value_usd = v, req_to = to, req_commit = commit\<rparr>]"
  by (simp add: check_policy_def Let_def)




lemma swap_after_check:
  fixes dry :: bool
  assumes q: "quote_response w input_mint output_mint amt slippage_bps = Some q" "q \<noteq> []"
    and v: "swap_value w q input_mint = (Inr v, tv)"
    and c: "fst (check_policy w ''solana'' v ''jupiter_swap'' False) = (allowed, msg)"
  defines "pre \<equiv> [QuoteRequest input_mint output_mint amt slippage_bps] @ tv
                  @ [PolicyCheck \<lparr>req_chain = ''solana'', req_value_usd = v,
                                  req_to = ''jupiter_swap'', req_commit = False\<rparr>]"
    and "details \<equiv> quote_details w q input_mint output_mint v"
    and "address \<equiv> solana_address_read w"
  defines "checked \<equiv> \<lparr>status = ''error'', dry_run = dry, error = None, quote = Some details,
                       policy_result = Some (allowed, msg), swap_transaction_b64 = None\<rparr>"
  shows "\<not> allowed \<Longrightarrow>
           jupiter_swap w input_mint output_mint amt slippage_bps dry
           = (Inr (checked\<lparr>status := ''policy_denied''\<rparr>),
              pre @ [EventLogged ''swap_denied'' ((''reason'', JStr msg) # details)])"
    and "allowed \<Longrightarrow> dry \<Longrightarrow>
           jupiter_swap w input_mint output_mint amt slippage_bps dry
           = (Inr (checked\<lparr>status := ''quote_ready''\<rparr>), pre)"
    and "allowed \<Longrightarrow> \<not> dry \<Longrightarrow> address = [] \<Longrightarrow>
           jupiter_swap w input_mint output_mint amt slippage_bps dry
           = (Inr (checked\<lparr>error := Some ''No Solana wallet address''\<rparr>), pre)"
    and "allowed \<Longrightarrow> \<not> dry \<Longrightarrow> address \<noteq> [] \<Longrightarrow>
         \<not> truthy (fst (jupiter_get_swap_tx w q address)) \<Longrightarrow>
           jupiter_swap w input_mint output_mint amt slippage_bps dry
           = (Inr (checked\<lparr>error := Some ''Failed to build swap transaction''\<rparr>),
              pre @ [BuildRequest q address])"
    and "allowed \<Longrightarrow> \<not> dry \<Longrightarrow> address \<noteq> [] \<Longrightarrow>
         truthy (fst (jupiter_get_swap_tx w q address)) \<Longrightarrow>
           jupiter_swap w input_mint output_mint amt slippage_bps dry
           = (Inr (checked\<lparr>swap_transaction_b64 := Some (fst (jupiter_get_swap_tx w q address)),
                           status := ''tx_ready''\<rparr>),
              pre @ [BuildRequest q address,
                     PolicyCheck \<lparr>req_chain = ''solana'', req_value_usd = v,
                                  req_to = ''jupiter_swap'', req_commit = True\<rparr>,
                     EventLogged ''swap''
                       [(''chain'', JStr ''solana''),
                        (''value_usd'', JFloat v),
                        (''input_mint'', JStr input_mint),
                        (''output_mint'', JStr output_mint),
                        (''in_amount'', JStr (py_str w (dict_get q ''inAmount'' (JStr [])))),
                        (''out_amount'', JStr (py_str w (dict_get q ''outAmount'' (JStr []))))],
                     DecisionRecorded ''swap_executed''
                       (''Jupiter swap '' @ take 8 input_mint @ ''->'' @ take 8 output_mint
                          @ '', ~$'' @ format_2f w v)
                       details])"
proof -
  have cp: "check_policy w ''solana'' v ''jupiter_swap'' False
      = ((allowed, msg), [PolicyCheck \<lparr>req_chain = ''solana'', req_value_usd = v,
                                       req_to = ''jupiter_swap'', req_commit = False\<rparr>])"
    using c check_policy_effects [of w "''solana''" v "''jupiter_swap''" False]
    by (cases "check_policy w ''solana'' v ''jupiter_swap'' False") simp
  have gq: "jupiter_get_quote w input_mint output_mint amt slippage_bps
      = (Some q, [QuoteRequest input_mint output_mint amt slippage_bps])"
    using q by (simp add: jupiter_get_quote_def)
  have gs: "\<And>a. jupiter_get_swap_tx w q a = (fst (jupiter_get_swap_tx w q a), [BuildRequest q a])"
    by (simp add: jupiter_get_swap_tx_def)
  note defs = jupiter_swap_def Let_def gq v cp check_policy_effects log_financial_event_def
    record_decision_def pre_def details_def address_def checked_def
  show "\<not> allowed \<Longrightarrow>
           jupiter_swap w input_mint output_mint amt slippage_bps dry
           = (Inr (checked\<lparr>status := ''policy_denied''\<rparr>),
              pre @ [EventLogged ''swap_denied'' ((''reason'', JStr msg) # details)])"
    using q(2) by (simp add: defs)
  show "allowed \<Longrightarrow> dry \<Longrightarrow>
           jupiter_swap w input_mint output_mint amt slippage_bps dry
           = (Inr (checked\<lparr>status := ''quote_ready''\<rparr>), pre)"
    using q(2) by (simp add: defs)
  show "allowed \<Longrightarrow> \<not> dry \<Longrightarrow> address = [] \<Longrightarrow>
           jupiter_swap w input_mint output_mint amt slippage_bps dry
           = (Inr (checked\<lparr>error := Some ''No Solana wallet address''\<rparr>), pre)"
    using q(2) by (simp add: defs)
  show "allowed \<Longrightarrow> \<not> dry \<Longrightarrow> address \<noteq> [] \<Longrightarrow>
         \<not> truthy (fst (jupiter_get_swap_tx w q address)) \<Longrightarrow>
           jupiter_swap w input_mint output_mint amt slippage_bps dry
           = (Inr (checked\<lparr>error := Some ''Failed to build swap transaction''\<rparr>),
              pre @ [BuildRequest q address])"
    using q(2) gs [of "solana_address_read w"]
    by (cases "jupiter_get_swap_tx w q (solana_address_read w)") (simp add: defs)
  show "allowed \<Longrightarrow> \<not> dry \<Longrightarrow> address \<noteq> [] \<Longrightarrow>
         truthy (fst (jupiter_get_swap_tx w q address)) \<Longrightarrow>
           jupiter_swap w input_mint output_mint amt slippage_bps dry
           = (Inr (checked\<lparr>swap_transaction_b64 := Some (fst (jupiter_get_swap_tx w q address)),
                           status := ''tx_ready''\<rparr>),
              pre @ [BuildRequest q address,
                     PolicyCheck \<lparr>req_chain = ''solana'', req_value_usd = v,
                                  req_to = ''jupiter_swap'', req_commit = True\<rparr>,
                     EventLogged ''swap''
                       [(''chain'', JStr ''solana''),
                        (''value_usd'', JFloat v),
                        (''input_mint'', JStr input_mint),
                        (''output_mint'', JStr output_mint),
                        (''in_amount'', JStr (py_str w (dict_get q ''inAmount'' (JStr [])))),
                        (''out_amount'', JStr (py_str w (dict_get q ''outAmount'' (JStr []))))],
                     DecisionRecorded ''swap_executed''
                       (''Jupiter swap '' @ take 8 input_mint @ ''->'' @ take 8 output_mint
                          @ '', ~$'' @ format_2f w v)
                       details])"
    using q(2) gs [of "solana_address_read w"]
    by (cases "jupiter_get_swap_tx w q (solana_address_read w)") (simp add: defs)
qed



lemma quiet_prefix:
  assumes "\<forall>e \<in> set tv. is_http_get e"
  shows "\<forall>e \<in> set ([QuoteRequest input_mint output_mint amt slippage_bps] @ tv
                     @ [PolicyCheck \<lparr>req_chain = c, req_value_usd = v, req_to = d,
                                     req_commit = False\<rparr>]).
           \<not> is_build_call e \<and> \<not> is_commit_call e"
  using assms http_get_quiet by auto



text \<open>
  C10. Without \<open>dry_run\<close>, with a quote and an allowed policy check but an empty wallet
  address, the swap returns the error \<open>No Solana wallet address\<close>, and makes neither a build
  request nor a committing policy call.
\<close>

theorem swap_no_wallet_stops:
  assumes "quote_response w input_mint output_mint amt slippage_bps = Some q" and "q \<noteq> []"
    and "fst (swap_value w q input_mint) = Inr v"
    and "fst (check_policy w ''solana'' v ''jupiter_swap'' False) = (True, msg)"
    and "solana_address_read w = []"
  shows "\<exists>r t. jupiter_swap w input_mint output_mint amt slippage_bps False = (Inr r, t)
           \<and> status r = ''error''
           \<and> error r = Some ''No Solana wallet address''
           \<and> swap_transaction_b64 r = None
           \<and> (\<forall>e \<in> set t. \<not> is_build_call e \<and> \<not> is_commit_call e)"
proof -
  obtain tv where v: "swap_value w q input_mint = (Inr v, tv)"
    using assms(3) by (cases "swap_value w q input_mint") simp
  have tv: "\<forall>e \<in> set tv. is_http_get e"
    using swap_value_effects [of w q input_mint] v by simp
  show ?thesis
    unfolding swap_after_check(3) [OF assms(1,2) v assms(4) _ _ assms(5), of False, simplified]
    using quiet_prefix [OF tv] by simp
qed







subsection \<open>The swaps of the example worlds\<close>

lemma example_in_amount: "py_int (dict_get example_quote ''inAmount'' (JInt 0)) = Inr 1000000000"
  by (simp add: example_quote_def dict_get_def int_of_str_def strip_def is_space_def is_digit_def)

lemma coingecko_up_sol_price:
  "http_get_json w = http_get_json world_coingecko_up \<Longrightarrow>
   get_sol_price w
   = (Inr (Some 150),
      [HttpGet COINGECKO_PRICE_URL [(''ids'', ''solana''), (''vs_currencies'', ''usd'')]])"
  by (simp add: get_sol_price_def with_fallback_def price_truthy_def coingecko_price_def
      world_coingecko_up_def quiet_world_def Let_def
      COINGECKO_PRICE_URL_def catching_def coingecko_parse_def)

lemma example_value:
  "http_get_json w = http_get_json world_coingecko_up \<Longrightarrow>
   swap_value w example_quote SOL_MINT
   = (Inr 150,
      [HttpGet COINGECKO_PRICE_URL [(''ids'', ''solana''), (''vs_currencies'', ''usd'')]])"
  by (simp add: swap_value_def example_in_amount coingecko_up_sol_price price_truthy_def Let_def)

lemma ready_facts:
  "http_get_json world_swap_ready = http_get_json world_coingecko_up"
  "quote_response world_swap_ready SOL_MINT USDC_MINT 1000000000 50 = Some example_quote"
  "example_quote \<noteq> []"
  "fst (check_policy world_swap_ready ''solana'' 150 ''jupiter_swap'' False) = (True, ''ALLOW'')"
  "solana_address_read world_swap_ready = ''Wallet1111''"
  "fst (jupiter_get_swap_tx world_swap_ready example_quote ''Wallet1111'') = JStr ''AQID''"
  by (simp_all add: world_swap_ready_def world_coingecko_up_def quiet_world_def example_quote_def
      check_policy_def Let_def strip_def is_space_def jupiter_get_swap_tx_def dict_get_def)


lemma no_wallet_facts:
  "http_get_json world_no_wallet = http_get_json world_coingecko_up"
  "quote_response world_no_wallet SOL_MINT USDC_MINT 1000000000 50 = Some example_quote"
  "fst (check_policy world_no_wallet ''solana'' 150 ''jupiter_swap'' False) = (True, ''ALLOW'')"
  "solana_address_read world_no_wallet = []"
  by (simp_all add: world_no_wallet_def world_swap_ready_def world_coingecko_up_def
      quiet_world_def check_policy_def Let_def strip_def is_space_def)






text \<open>Without a wallet the allowed swap of one SOL ends in the error.\<close>

theorem swap_no_wallet_stops_witness:
  "quote_response world_no_wallet SOL_MINT USDC_MINT 1000000000 50 = Some example_quote
   \<and> example_quote \<noteq> []
   \<and> fst (swap_value world_no_wallet example_quote SOL_MINT) = Inr 150
   \<and> fst (check_policy world_no_wallet ''solana'' 150 ''jupiter_swap'' False) = (True, ''ALLOW'')
   \<and> solana_address_read world_no_wallet = []
   \<and> (\<exists>r t. jupiter_swap world_no_wallet SOL_MINT USDC_MINT 1000000000 50 False = (Inr r, t)
         \<and> status r = ''error''
         \<and> error r = Some ''No Solana wallet address''
         \<and> swap_transaction_b64 r = None
         \<and> (\<forall>e \<in> set t. \<not> is_build_call e \<and> \<not> is_commit_call e))"
proof -
  have v: "fst (swap_value world_no_wallet example_quote SOL_MINT) = Inr 150"
    by (simp add: example_value [OF no_wallet_facts(1)])
  from swap_no_wallet_stops [OF no_wallet_facts(2) ready_facts(3) v no_wallet_facts(3,4)]
  have "\<exists>r t. jupiter_swap world_no_wallet SOL_MINT USDC_MINT 1000000000 50 False = (Inr r, t)
         \<and> status r = ''error''
         \<and> error r = Some ''No Solana wallet address''
         \<and> swap_transaction_b64 r = None
         \<and> (\<forall>e \<in> set t. \<not> is_build_call e \<and> \<not> is_commit_call e)"
    by blast
  with v no_wallet_facts(2,3,4) ready_facts(3) show ?thesis by (intro conjI)
qed







end
